theory Spec2Isabelle
  imports Complex_Main "HOL-Library.Word"
begin

unbundle bit_operations_syntax

section \<open>The PyAutoGUI tool server (server.py)\<close>

text \<open>
  server.py defines eight tools. Each tool body is a thin wrapper: it calls one or a few
  library functions (pyautogui, Pillow, the standard library's base64) inside a
  \<^verbatim>\<open>try\<close> block and turns what they raise into a \<^verbatim>\<open>RuntimeError\<close> or a
  \<^verbatim>\<open>ValueError\<close>. The libraries are not part of the repository: their behaviour is a
  parameter of the model (\<open>platform\<close>, \<open>pil_module\<close>). What the server itself does, which
  library calls it makes, in which order, and what it returns for each of their outcomes,
  is modelled from the source.
\<close>

subsection \<open>Python values\<close>

type_synonym byte = "8 word"

type_synonym bytes = "byte list"

text \<open>A raster image: width, height and pixel data.\<close>

datatype image = Raster nat nat bytes

text \<open>
  The classes of exception the \<^verbatim>\<open>except\<close> clauses of server.py tell apart:
  \<^verbatim>\<open>base64.Error\<close> (an alias of \<^verbatim>\<open>binascii.Error\<close>, a subclass of
  \<^verbatim>\<open>ValueError\<close>), any other subclass of \<^verbatim>\<open>Exception\<close>, and the exceptions
  outside \<^verbatim>\<open>Exception\<close> (\<^verbatim>\<open>KeyboardInterrupt\<close>, \<^verbatim>\<open>SystemExit\<close>), which
  \<^verbatim>\<open>except Exception\<close> does not catch.
\<close>

datatype exc_class = binascii_Error | Exception | BaseException

text \<open>An exception raised by a library: its class and its \<^verbatim>\<open>str(e)\<close>.\<close>

datatype py_exception = Raised exc_class string

fun class_of :: "py_exception \<Rightarrow> exc_class" where
  "class_of (Raised c m) = c"

text \<open>
  An f-string is kept as the sequence of its literal and interpolated parts, in order;
  rendering the parts (\<^verbatim>\<open>str\<close> of an int, \<^verbatim>\<open>repr\<close> of a list) is Python's.
\<close>

datatype fpart =
    Lit string
  | Fmt_int int
  | Fmt_str string
  | Fmt_list "string list"
  | Fmt_exc py_exception

type_synonym fstring = "fpart list"

text \<open>
  What a tool call ends with when it does not return a value: the \<^verbatim>\<open>RuntimeError\<close> or
  \<^verbatim>\<open>ValueError\<close> a tool body raises, the validation error of the framework, which
  lists each offending parameter with the constraint it violates, or an exception that no
  \<^verbatim>\<open>except\<close> clause of the body catches.
\<close>

datatype tool_error =
    RuntimeError fstring
  | ValueError fstring
  | ValidationError "(string \<times> string) list"
  | Uncaught py_exception

text \<open>The value \<^verbatim>\<open>Image(data=..., format=...)\<close> of the framework.\<close>

record fastmcp_Image =
  data :: bytes
  format :: string

subsection \<open>Library calls and their history\<close>

text \<open>
  Every call the server makes into a library is recorded, in order. A tool takes the
  history so far and returns the history extended by the calls it made; a tool that
  returns the history unchanged has called nothing.
\<close>

datatype lib_call =
    Call_moveTo int int
  | Call_click int int string int
  | Call_typewrite string real
  | Call_press string
  | Call_hotkey "string list"
  | Call_b64decode string
  | Call_PILImage_open bytes
  | Call_locateCenterOnScreen image real
  | Call_screenshot
  | Call_save image string
  | Call_size
  | Call_ctx_info fstring

type_synonym history = "lib_call list"

text \<open>
  The libraries. A function that acts on or reads the desktop answers depending on the
  history; \<^verbatim>\<open>base64.b64decode\<close> and \<^verbatim>\<open>Image.save\<close> are functions of their
  arguments. Each answer is either an exception or the returned value.
  \<open>pyautogui_KEYBOARD_KEYS\<close> is the list of key names pyautogui recognises; \<open>ctx\<close> is the
  context object the framework passes to \<^verbatim>\<open>click\<close>, when it passes one.
\<close>

record platform =
  pyautogui_moveTo :: "history \<Rightarrow> int \<Rightarrow> int \<Rightarrow> py_exception + unit"
  pyautogui_click :: "history \<Rightarrow> int \<Rightarrow> int \<Rightarrow> string \<Rightarrow> int \<Rightarrow> py_exception + unit"
  pyautogui_typewrite :: "history \<Rightarrow> string \<Rightarrow> real \<Rightarrow> py_exception + unit"
  pyautogui_press :: "history \<Rightarrow> string \<Rightarrow> py_exception + unit"
  pyautogui_hotkey :: "history \<Rightarrow> string list \<Rightarrow> py_exception + unit"
  pyautogui_locateCenterOnScreen ::
    "history \<Rightarrow> image \<Rightarrow> real \<Rightarrow> py_exception + (int \<times> int) option"
  pyautogui_screenshot :: "history \<Rightarrow> py_exception + image"
  pyautogui_size :: "history \<Rightarrow> py_exception + int \<times> int"
  pyautogui_KEYBOARD_KEYS :: "string list"
  image_save :: "image \<Rightarrow> string \<Rightarrow> py_exception + bytes"
  base64_b64decode :: "string \<Rightarrow> py_exception + bytes"
  ctx :: "(history \<Rightarrow> fstring \<Rightarrow> py_exception + unit) option"

text \<open>The Pillow module, when the import at the top of server.py succeeded.\<close>

record pil_module =
  PILImage_open :: "bytes \<Rightarrow> py_exception + image"

text \<open>
  The module-level name \<^verbatim>\<open>PILImage\<close>: bound once, by the \<^verbatim>\<open>try\<close>/\<^verbatim>\<open>except
  ImportError\<close> at import time (lines 8 to 11), to the module or to \<^verbatim>\<open>None\<close>. No
  tool assigns to it, so it is a parameter of every tool and never part of a result.
\<close>

record server =
  PILImage :: "pil_module option"

subsection \<open>Exception handlers\<close>

text \<open>
  \<^verbatim>\<open>except Exception as e: raise RuntimeError(f"...{e}")\<close>: an exception outside
  \<^verbatim>\<open>Exception\<close> passes through.
\<close>

definition except_Exception :: "(py_exception \<Rightarrow> tool_error) \<Rightarrow> py_exception \<Rightarrow> tool_error" where
  "except_Exception handler e =
     (if class_of e = BaseException then Uncaught e else handler e)"

subsection \<open>The input tools\<close>

definition move_to :: "platform \<Rightarrow> int \<Rightarrow> int \<Rightarrow> history \<Rightarrow> (tool_error + unit) \<times> history" where
  "move_to plat x y h =
     (case pyautogui_moveTo plat h x y of
        Inr u \<Rightarrow> (Inr (), h @ [Call_moveTo x y])
      | Inl e \<Rightarrow>
          (Inl (except_Exception (\<lambda>e. RuntimeError
             [Lit ''Failed to move mouse to ('', Fmt_int x, Lit '', '', Fmt_int y,
              Lit ''): '', Fmt_exc e]) e),
           h @ [Call_moveTo x y]))"

text \<open>
  \<^verbatim>\<open>click\<close>: the message to \<^verbatim>\<open>ctx.info\<close> is sent outside the \<^verbatim>\<open>try\<close> block,
  so whatever it raises leaves the tool as it is.
\<close>

definition click_info :: "int \<Rightarrow> int \<Rightarrow> string \<Rightarrow> int \<Rightarrow> fstring" where
  "click_info x y button clicks =
     [Lit ''Clicking at ('', Fmt_int x, Lit '', '', Fmt_int y, Lit '') with '',
      Fmt_str button, Lit '' button, '', Fmt_int clicks, Lit '' times.'']"

definition click_try ::
  "platform \<Rightarrow> int \<Rightarrow> int \<Rightarrow> string \<Rightarrow> int \<Rightarrow> history \<Rightarrow> (tool_error + unit) \<times> history" where
  "click_try plat x y button clicks h =
     (case pyautogui_click plat h x y button clicks of
        Inr u \<Rightarrow> (Inr (), h @ [Call_click x y button clicks])
      | Inl e \<Rightarrow>
          (Inl (except_Exception (\<lambda>e. RuntimeError
             [Lit ''Failed to click at ('', Fmt_int x, Lit '', '', Fmt_int y,
              Lit '') with '', Fmt_str button, Lit '' button, '', Fmt_int clicks,
              Lit '' times: '', Fmt_exc e]) e),
           h @ [Call_click x y button clicks]))"

definition click ::
  "platform \<Rightarrow> int \<Rightarrow> int \<Rightarrow> string \<Rightarrow> int \<Rightarrow> history \<Rightarrow> (tool_error + unit) \<times> history" where
  "click plat x y button clicks h =
     (case ctx plat of
        None \<Rightarrow> click_try plat x y button clicks h
      | Some info \<Rightarrow>
          (case info h (click_info x y button clicks) of
             Inl e \<Rightarrow> (Inl (Uncaught e), h @ [Call_ctx_info (click_info x y button clicks)])
           | Inr u \<Rightarrow>
               click_try plat x y button clicks
                 (h @ [Call_ctx_info (click_info x y button clicks)])))"

definition type_text ::
  "platform \<Rightarrow> string \<Rightarrow> real \<Rightarrow> history \<Rightarrow> (tool_error + unit) \<times> history" where
  "type_text plat text interval h =
     (case pyautogui_typewrite plat h text interval of
        Inr u \<Rightarrow> (Inr (), h @ [Call_typewrite text interval])
      | Inl e \<Rightarrow>
          (Inl (except_Exception (\<lambda>e. RuntimeError
             [Lit ''Failed to type text: '', Fmt_exc e]) e),
           h @ [Call_typewrite text interval]))"

definition press_key :: "platform \<Rightarrow> string \<Rightarrow> history \<Rightarrow> (tool_error + unit) \<times> history" where
  "press_key plat key h =
     (case pyautogui_press plat h key of
        Inr u \<Rightarrow> (Inr (), h @ [Call_press key])
      | Inl e \<Rightarrow>
          (Inl (except_Exception (\<lambda>e. ValueError
             [Lit (''Failed to press key '' @ [CHR 0x27]), Fmt_str key,
              Lit (CHR 0x27 # '': ''), Fmt_exc e,
              Lit ''. Ensure it's a valid key name.'']) e),
           h @ [Call_press key]))"

definition press_hotkey ::
  "platform \<Rightarrow> string list \<Rightarrow> history \<Rightarrow> (tool_error + unit) \<times> history" where
  "press_hotkey plat keys h =
     (case pyautogui_hotkey plat h keys of
        Inr u \<Rightarrow> (Inr (), h @ [Call_hotkey keys])
      | Inl e \<Rightarrow>
          (Inl (except_Exception (\<lambda>e. ValueError
             [Lit ''Failed to press hotkey combination '', Fmt_list keys, Lit '': '',
              Fmt_exc e, Lit ''. Ensure all key names are valid.'']) e),
           h @ [Call_hotkey keys]))"

subsection \<open>The image tools\<close>

text \<open>The message of the guard on \<^verbatim>\<open>PILImage\<close> (lines 162, 163 and 197, 198).\<close>

definition pillow_required :: tool_error where
  "pillow_required =
     RuntimeError [Lit ''Pillow (PIL) library is required for this tool but not installed.'']"

text \<open>
  The two \<^verbatim>\<open>except\<close> clauses of \<^verbatim>\<open>find_image_on_screen\<close>, in the order of the
  source: \<^verbatim>\<open>base64.Error\<close> first, then \<^verbatim>\<open>Exception\<close>. They guard the whole
  \<^verbatim>\<open>try\<close> block, so they apply to whatever any of its three calls raises.
\<close>

definition invalid_base64 :: tool_error where
  "invalid_base64 = ValueError [Lit ''Invalid Base64 string provided for image data.'']"

definition find_image_failed :: "py_exception \<Rightarrow> tool_error" where
  "find_image_failed e =
     RuntimeError [Lit ''An error occurred while trying to find the image: '', Fmt_exc e]"

definition find_image_except :: "py_exception \<Rightarrow> tool_error" where
  "find_image_except e =
     (if class_of e = binascii_Error then invalid_base64
      else except_Exception find_image_failed e)"

definition find_image_on_screen ::
  "server \<Rightarrow> platform \<Rightarrow> string \<Rightarrow> real \<Rightarrow> history
     \<Rightarrow> (tool_error + (string \<times> int) list option) \<times> history" where
  "find_image_on_screen srv plat image_data_base64 confidence h =
     (case PILImage srv of
        None \<Rightarrow> (Inl pillow_required, h)
      | Some pil \<Rightarrow>
          (let h1 = h @ [Call_b64decode image_data_base64] in
           case base64_b64decode plat image_data_base64 of
             Inl e \<Rightarrow> (Inl (find_image_except e), h1)
           | Inr image_bytes \<Rightarrow>
               (let h2 = h1 @ [Call_PILImage_open image_bytes] in
                case PILImage_open pil image_bytes of
                  Inl e \<Rightarrow> (Inl (find_image_except e), h2)
                | Inr image_ref \<Rightarrow>
                    (let h3 = h2 @ [Call_locateCenterOnScreen image_ref confidence] in
                     case pyautogui_locateCenterOnScreen plat h2 image_ref confidence of
                       Inl e \<Rightarrow> (Inl (find_image_except e), h3)
                     | Inr None \<Rightarrow> (Inr None, h3)
                     | Inr (Some location) \<Rightarrow>
                         (Inr (Some [(''x'', fst location), (''y'', snd location)]), h3)))))"

definition screenshot_failed :: "py_exception \<Rightarrow> tool_error" where
  "screenshot_failed e = RuntimeError [Lit ''Failed to take screenshot: '', Fmt_exc e]"

definition take_screenshot ::
  "server \<Rightarrow> platform \<Rightarrow> history \<Rightarrow> (tool_error + fastmcp_Image) \<times> history" where
  "take_screenshot srv plat h =
     (case PILImage srv of
        None \<Rightarrow> (Inl pillow_required, h)
      | Some pil \<Rightarrow>
          (let h1 = h @ [Call_screenshot] in
           case pyautogui_screenshot plat h of
             Inl e \<Rightarrow> (Inl (except_Exception screenshot_failed e), h1)
           | Inr screenshot_pil \<Rightarrow>
               (let h2 = h1 @ [Call_save screenshot_pil ''PNG''] in
                case image_save plat screenshot_pil ''PNG'' of
                  Inl e \<Rightarrow> (Inl (except_Exception screenshot_failed e), h2)
                | Inr img_bytes \<Rightarrow>
                    (Inr \<lparr>data = img_bytes, format = ''png''\<rparr>, h2))))"

definition get_screen_size ::
  "platform \<Rightarrow> history \<Rightarrow> (tool_error + (string \<times> int) list) \<times> history" where
  "get_screen_size plat h =
     (case pyautogui_size plat h of
        Inr wh \<Rightarrow> (Inr [(''width'', fst wh), (''height'', snd wh)], h @ [Call_size])
      | Inl e \<Rightarrow>
          (Inl (except_Exception (\<lambda>e. RuntimeError
             [Lit ''Failed to get screen size: '', Fmt_exc e]) e),
           h @ [Call_size]))"

subsection \<open>Declared parameters and the calls of a client\<close>

text \<open>
  A call as the framework hands it to the tool, after type coercion: a parameter with a
  default may be left out (\<open>None\<close>). The \<^verbatim>\<open>Field\<close> and \<^verbatim>\<open>Literal\<close> annotations
  of the signatures are checked by the framework before the body runs: \<^verbatim>\<open>button\<close> is
  one of three literals, \<^verbatim>\<open>clicks\<close> has \<^verbatim>\<open>ge=1\<close>, \<^verbatim>\<open>interval\<close> has
  \<^verbatim>\<open>ge=0.0\<close>, \<^verbatim>\<open>confidence\<close> has \<^verbatim>\<open>ge=0.0, le=1.0\<close>. The other parameters
  carry a description only. Python floats are taken as reals.
\<close>

datatype tool_call =
    Tool_move_to int int
  | Tool_click int int "string option" "int option"
  | Tool_type_text string "real option"
  | Tool_press_key string
  | Tool_press_hotkey "string list"
  | Tool_find_image_on_screen string "real option"
  | Tool_take_screenshot
  | Tool_get_screen_size

datatype tool_value =
    Returned_None
  | Returned_dict "(string \<times> int) list"
  | Returned_Image fastmcp_Image

fun arg_default :: "'a \<Rightarrow> 'a option \<Rightarrow> 'a" where
  "arg_default d None = d"
| "arg_default d (Some v) = v"

definition violations :: "tool_call \<Rightarrow> (string \<times> string) list" where
  "violations c =
     (case c of
        Tool_click x y button clicks \<Rightarrow>
          (if arg_default ''left'' button \<in> set [''left'', ''right'', ''middle''] then []
           else [(''button'', ''Literal'')]) @
          (if 1 \<le> arg_default 1 clicks then [] else [(''clicks'', ''ge=1'')])
      | Tool_type_text text interval \<Rightarrow>
          (if 0 \<le> arg_default 0 interval then [] else [(''interval'', ''ge=0.0'')])
      | Tool_find_image_on_screen image_data_base64 confidence \<Rightarrow>
          (if 0 \<le> arg_default 0.9 confidence then [] else [(''confidence'', ''ge=0.0'')]) @
          (if arg_default 0.9 confidence \<le> 1 then [] else [(''confidence'', ''le=1.0'')])
      | _ \<Rightarrow> [])"

fun returns :: "('a \<Rightarrow> tool_value) \<Rightarrow> (tool_error + 'a) \<times> history
    \<Rightarrow> (tool_error + tool_value) \<times> history" where
  "returns f (Inl e, h) = (Inl e, h)"
| "returns f (Inr v, h) = (Inr (f v), h)"

fun optional_dict :: "(string \<times> int) list option \<Rightarrow> tool_value" where
  "optional_dict None = Returned_None"
| "optional_dict (Some d) = Returned_dict d"

definition run_tool ::
  "server \<Rightarrow> platform \<Rightarrow> tool_call \<Rightarrow> history \<Rightarrow> (tool_error + tool_value) \<times> history" where
  "run_tool srv plat c h =
     (case c of
        Tool_move_to x y \<Rightarrow> returns (\<lambda>u. Returned_None) (move_to plat x y h)
      | Tool_click x y button clicks \<Rightarrow>
          returns (\<lambda>u. Returned_None)
            (click plat x y (arg_default ''left'' button) (arg_default 1 clicks) h)
      | Tool_type_text text interval \<Rightarrow>
          returns (\<lambda>u. Returned_None) (type_text plat text (arg_default 0 interval) h)
      | Tool_press_key key \<Rightarrow> returns (\<lambda>u. Returned_None) (press_key plat key h)
      | Tool_press_hotkey keys \<Rightarrow> returns (\<lambda>u. Returned_None) (press_hotkey plat keys h)
      | Tool_find_image_on_screen image_data_base64 confidence \<Rightarrow>
          returns optional_dict
            (find_image_on_screen srv plat image_data_base64 (arg_default 0.9 confidence) h)
      | Tool_take_screenshot \<Rightarrow> returns Returned_Image (take_screenshot srv plat h)
      | Tool_get_screen_size \<Rightarrow> returns Returned_dict (get_screen_size plat h))"

text \<open>One call: the declared constraints first, the body only when none is violated.\<close>

definition call_tool ::
  "server \<Rightarrow> platform \<Rightarrow> tool_call \<Rightarrow> history \<Rightarrow> (tool_error + tool_value) \<times> history" where
  "call_tool srv plat c h =
     (if violations c = [] then run_tool srv plat c h
      else (Inl (ValidationError (violations c)), h))"

text \<open>
  The calls a process serves, one after the other. The module globals \<open>srv\<close> are the same
  for each of them.
\<close>

fun serve ::
  "server \<Rightarrow> platform \<Rightarrow> tool_call list \<Rightarrow> history
     \<Rightarrow> (tool_error + tool_value) list \<times> history" where
  "serve srv plat [] h = ([], h)"
| "serve srv plat (c # cs) h =
     (case call_tool srv plat c h of
        (r, h') \<Rightarrow> (case serve srv plat cs h' of (rs, h'') \<Rightarrow> (r # rs, h'')))"

subsection \<open>The standard library's base64 decoder\<close>

text \<open>
  \<^verbatim>\<open>base64.b64decode(s)\<close> as find_image_on_screen calls it, with the arg_default
  \<^verbatim>\<open>validate=False\<close>, following CPython (3.11 and later): a \<^verbatim>\<open>str\<close> argument
  must be ASCII (otherwise a plain \<^verbatim>\<open>ValueError\<close>), then
  \<^verbatim>\<open>binascii.a2b_base64\<close> runs in its non-strict mode, which skips every character
  outside the alphabet, stops at a complete pad sequence and raises
  \<^verbatim>\<open>binascii.Error\<close> only when the characters it kept do not fill their last
  group of four. The function is used for the sample platform below and for the study of
  which inputs the decoder refuses; the theorems about the tools hold for any decoder.
\<close>

fun str_nat :: "nat \<Rightarrow> string" where
  "str_nat n =
     (if n < 10 then [char_of (48 + n)]
      else str_nat (n div 10) @ [char_of (48 + n mod 10)])"

declare str_nat.simps [simp del]

definition table_a2b_base64 :: "char \<Rightarrow> byte" where
  "table_a2b_base64 c =
     (let n = of_char c :: nat in
      if 65 \<le> n \<and> n \<le> 90 then of_nat (n - 65)
      else if 97 \<le> n \<and> n \<le> 122 then of_nat (n - 71)
      else if 48 \<le> n \<and> n \<le> 57 then of_nat (n + 4)
      else if n = 43 then 62
      else if n = 47 then 63
      else 255)"

text \<open>
  The loop of \<^verbatim>\<open>a2b_base64\<close> over the input, with its variables \<^verbatim>\<open>quad_pos\<close>,
  \<^verbatim>\<open>leftchar\<close> and \<^verbatim>\<open>pads\<close>, and the bytes written so far.
\<close>

fun a2b_base64 :: "string \<Rightarrow> nat \<Rightarrow> byte \<Rightarrow> nat \<Rightarrow> bytes \<Rightarrow> py_exception + bytes" where
  "a2b_base64 [] quad_pos leftchar pads bin_data =
     (if quad_pos \<noteq> 0 then
        (if quad_pos = 1 then
           Inl (Raised binascii_Error
             (''Invalid base64-encoded string: number of data characters ('' @
              str_nat (length bin_data div 3 * 4 + 1) @
              '') cannot be 1 more than a multiple of 4''))
         else Inl (Raised binascii_Error ''Incorrect padding''))
      else Inr bin_data)"
| "a2b_base64 (this_ch # ascii_data) quad_pos leftchar pads bin_data =
     (if this_ch = CHR ''='' then
        (if 2 \<le> quad_pos then
           (if 4 \<le> quad_pos + (pads + 1) then Inr bin_data
            else a2b_base64 ascii_data quad_pos leftchar (pads + 1) bin_data)
         else a2b_base64 ascii_data quad_pos leftchar pads bin_data)
      else
        (let v = table_a2b_base64 this_ch in
         if 64 \<le> v then a2b_base64 ascii_data quad_pos leftchar pads bin_data
         else if quad_pos = 0 then a2b_base64 ascii_data 1 v 0 bin_data
         else if quad_pos = 1 then
           a2b_base64 ascii_data 2 (v AND 0x0f) 0
             (bin_data @ [push_bit 2 leftchar OR drop_bit 4 v])
         else if quad_pos = 2 then
           a2b_base64 ascii_data 3 (v AND 0x03) 0
             (bin_data @ [push_bit 4 leftchar OR drop_bit 2 v])
         else a2b_base64 ascii_data 0 0 0 (bin_data @ [push_bit 6 leftchar OR v])))"

definition b64decode :: "string \<Rightarrow> py_exception + bytes" where
  "b64decode s =
     (if list_ex (\<lambda>c. 128 \<le> (of_char c :: nat)) s then
        Inl (Raised Exception ''string argument should contain only ASCII characters'')
      else a2b_base64 s 0 0 0 [])"

text \<open>
  Well-formed base64 (RFC 4648, section 4): characters of the alphabet, then at most two
  pad characters, in groups of four.
\<close>

definition wellformed_base64 :: "string \<Rightarrow> bool" where
  "wellformed_base64 s =
     (let body = takeWhile (\<lambda>c. c \<noteq> CHR ''='') s;
          pad = dropWhile (\<lambda>c. c \<noteq> CHR ''='') s
      in list_all (\<lambda>c. table_a2b_base64 c < 64) body \<and>
         (pad = [] \<or> pad = ''='' \<or> pad = ''=='') \<and>
         length s mod 4 = 0)"

subsection \<open>A sample platform\<close>

text \<open>
  Small stand-ins for the libraries, so that the tools can be run on concrete inputs. The
  sample image format is one byte of width, one of height, then the pixels; the sample
  screen has two pixels; a one-pixel reference image is found where its pixel is.
\<close>

definition sample_open :: "bytes \<Rightarrow> py_exception + image" where
  "sample_open bs =
     (case bs of
        w # ht # px \<Rightarrow>
          (if length px = unat w * unat ht then Inr (Raster (unat w) (unat ht) px)
           else Inl (Raised Exception ''cannot identify image file''))
      | _ \<Rightarrow> Inl (Raised Exception ''cannot identify image file''))"

definition sample_screen :: image where
  "sample_screen = Raster 2 1 [0, 7]"

fun sample_locate :: "history \<Rightarrow> image \<Rightarrow> real \<Rightarrow> py_exception + (int \<times> int) option" where
  "sample_locate h (Raster w ht px) confidence =
     (if px = [0] then Inr (Some (0, 0))
      else if px = [7] then Inr (Some (1, 0))
      else Inr None)"

fun sample_save :: "image \<Rightarrow> string \<Rightarrow> py_exception + bytes" where
  "sample_save (Raster w ht px) fmt =
     (if fmt = ''PNG'' then Inr ([0x89, 0x50, 0x4E, 0x47, of_nat w, of_nat ht] @ px)
      else Inl (Raised Exception ''unknown file extension''))"

definition sample_platform :: platform where
  "sample_platform =
     \<lparr>pyautogui_moveTo = (\<lambda>h x y. Inr ()),
      pyautogui_click = (\<lambda>h x y button clicks. Inr ()),
      pyautogui_typewrite = (\<lambda>h text interval. Inr ()),
      pyautogui_press = (\<lambda>h key. Inr ()),
      pyautogui_hotkey = (\<lambda>h keys. Inr ()),
      pyautogui_locateCenterOnScreen = sample_locate,
      pyautogui_screenshot = (\<lambda>h. Inr sample_screen),
      pyautogui_size = (\<lambda>h. Inr (2, 1)),
      pyautogui_KEYBOARD_KEYS = [''enter'', ''esc'', ''f1'', ''ctrl'', ''c''],
      image_save = sample_save,
      base64_b64decode = b64decode,
      ctx = None\<rparr>"

text \<open>The same platform with a screen capture that fails.\<close>

definition no_display :: platform where
  "no_display =
     sample_platform\<lparr>pyautogui_screenshot :=
       (\<lambda>h. Inl (Raised Exception ''screen grab failed''))\<rparr>"

text \<open>The same platform with a key press that refuses the names it does not know.\<close>

definition strict_keys :: platform where
  "strict_keys =
     sample_platform\<lparr>pyautogui_press :=
       (\<lambda>h key. if key \<in> set (pyautogui_KEYBOARD_KEYS sample_platform) then Inr ()
                 else Inl (Raised Exception ''unknown key''))\<rparr>"

definition with_pillow :: server where
  "with_pillow = \<lparr>PILImage = Some \<lparr>PILImage_open = sample_open\<rparr>\<rparr>"

definition without_pillow :: server where
  "without_pillow = \<lparr>PILImage = None\<rparr>"

section \<open>Properties\<close>

subsection \<open>What the decoder refuses\<close>

text \<open>
  A character of the alphabet moves \<^verbatim>\<open>quad_pos\<close> one step round its cycle of four
  and clears \<^verbatim>\<open>pads\<close>.
\<close>

lemma alphabet_not_pad: "table_a2b_base64 c < 64 \<Longrightarrow> c \<noteq> CHR ''=''"
  by (auto simp: table_a2b_base64_def)

lemma alphabet_ascii: "table_a2b_base64 c < 64 \<Longrightarrow> \<not> 128 \<le> (of_char c :: nat)"
  by (auto simp: table_a2b_base64_def Let_def split: if_splits)

lemma alphabet_kept: "table_a2b_base64 c < 64 \<Longrightarrow> \<not> 64 \<le> table_a2b_base64 c"
  by simp

lemma a2b_base64_alphabet_step:
  assumes "table_a2b_base64 c < 64" and "q < 4"
  shows "\<exists>l' out'. a2b_base64 (c # cs) q l p out = a2b_base64 cs ((q + 1) mod 4) l' 0 out'"
proof -
  note c = alphabet_not_pad [OF assms(1)] alphabet_kept [OF assms(1)]
  from assms(2) consider "q = 0" | "q = 1" | "q = 2" | "q = 3" by linarith
  then show ?thesis
  proof cases
    case 1
    then have m: "(q + 1) mod 4 = 1" by simp
    show ?thesis unfolding m using 1 c by (auto simp: Let_def)
  next
    case 2
    then have m: "(q + 1) mod 4 = 2" by simp
    show ?thesis unfolding m using 2 c by (auto simp: Let_def)
  next
    case 3
    then have m: "(q + 1) mod 4 = 3" by simp
    show ?thesis unfolding m using 3 c by (auto simp: Let_def)
  next
    case 4
    then have m: "(q + 1) mod 4 = 0" by simp
    show ?thesis unfolding m using 4 c by (auto simp: Let_def)
  qed
qed

lemma a2b_base64_alphabet_prefix:
  "list_all (\<lambda>c. table_a2b_base64 c < 64) body \<Longrightarrow> q < 4 \<Longrightarrow>
   \<exists>l' out'. a2b_base64 (body @ rest) q l p out =
     a2b_base64 rest ((q + length body) mod 4) l' (if body = [] then p else 0) out'"
proof (induction body arbitrary: q l p out)
  case Nil
  then show ?case by auto
next
  case (Cons c cs)
  then have c: "table_a2b_base64 c < 64" and cs: "list_all (\<lambda>c. table_a2b_base64 c < 64) cs"
    by simp_all
  from a2b_base64_alphabet_step [OF c Cons.prems(2)]
  obtain l1 out1 where s1:
    "a2b_base64 (c # (cs @ rest)) q l p out = a2b_base64 (cs @ rest) ((q + 1) mod 4) l1 0 out1"
    by blast
  have "(q + 1) mod 4 < 4" by simp
  from Cons.IH [OF cs this]
  obtain l2 out2 where s2:
    "a2b_base64 (cs @ rest) ((q + 1) mod 4) l1 0 out1 =
       a2b_base64 rest (((q + 1) mod 4 + length cs) mod 4) l2 (if cs = [] then 0 else 0) out2"
    by blast
  have "((q + 1) mod 4 + length cs) mod 4 = (q + length (c # cs)) mod 4"
    by (simp add: mod_simps)
  with s1 s2 show ?case by auto
qed

lemma a2b_base64_end:
  "q < 4 \<Longrightarrow>
   (q = 0 \<longrightarrow> a2b_base64 [] q l p out = Inr out) \<and>
   (q \<noteq> 0 \<longrightarrow> (\<exists>m. a2b_base64 [] q l p out = Inl (Raised binascii_Error m)))"
  by simp

lemma b64decode_ascii:
  "\<not> list_ex (\<lambda>c. 128 \<le> (of_char c :: nat)) s \<Longrightarrow> b64decode s = a2b_base64 s 0 0 0 []"
  by (simp add: b64decode_def)

lemma alphabet_all_ascii:
  "list_all (\<lambda>c. table_a2b_base64 c < 64) s \<Longrightarrow> \<not> list_ex (\<lambda>c. 128 \<le> (of_char c :: nat)) s"
  by (induction s) (auto dest: alphabet_ascii)

text \<open>
  On a string of alphabet characters the decoder raises \<^verbatim>\<open>binascii.Error\<close> exactly
  when the length is not a multiple of four.
\<close>

lemma b64decode_alphabet:
  assumes "list_all (\<lambda>c. table_a2b_base64 c < 64) s"
  shows "(\<exists>m. b64decode s = Inl (Raised binascii_Error m)) \<longleftrightarrow> length s mod 4 \<noteq> 0"
    and "(\<exists>bs. b64decode s = Inr bs) \<longleftrightarrow> length s mod 4 = 0"
proof -
  from a2b_base64_alphabet_prefix [OF assms, of 0 "[]" 0 0 "[]"]
  obtain l' out' where
    "a2b_base64 s 0 0 0 [] = a2b_base64 [] (length s mod 4) l' (if s = [] then 0 else 0) out'"
    by auto
  then have d: "b64decode s = a2b_base64 [] (length s mod 4) l' 0 out'"
    using b64decode_ascii [OF alphabet_all_ascii [OF assms]] by simp
  show "(\<exists>m. b64decode s = Inl (Raised binascii_Error m)) \<longleftrightarrow> length s mod 4 \<noteq> 0"
    unfolding d by simp
  show "(\<exists>bs. b64decode s = Inr bs) \<longleftrightarrow> length s mod 4 = 0"
    unfolding d by simp
qed

text \<open>
  The decoder accepts every well-formed input. It accepts more: see \<open>''!!!!''\<close> below.
\<close>

lemma b64decode_wellformed:
  assumes "wellformed_base64 s"
  shows "\<exists>bs. b64decode s = Inr bs"
proof -
  define body where "body = takeWhile (\<lambda>c. c \<noteq> CHR ''='') s"
  define pad where "pad = dropWhile (\<lambda>c. c \<noteq> CHR ''='') s"
  have s: "s = body @ pad" by (simp add: body_def pad_def)
  from assms have body: "list_all (\<lambda>c. table_a2b_base64 c < 64) body"
    and pad: "pad = [] \<or> pad = ''='' \<or> pad = ''==''"
    and len: "length s mod 4 = 0"
    by (simp_all add: wellformed_base64_def Let_def body_def pad_def)
  have "\<not> list_ex (\<lambda>c. 128 \<le> (of_char c :: nat)) s"
    using alphabet_all_ascii [OF body] pad unfolding s by auto
  then have d: "b64decode s = a2b_base64 (body @ pad) 0 0 0 []"
    using b64decode_ascii s by simp
  from a2b_base64_alphabet_prefix [OF body, of 0 pad 0 0 "[]"]
  obtain l' out' where r:
    "a2b_base64 (body @ pad) 0 0 0 [] = a2b_base64 pad (length body mod 4) l' 0 out'"
    by auto
  from pad consider "pad = []" | "pad = ''=''" | "pad = ''==''" by blast
  then show ?thesis
  proof cases
    case 1
    with len s have "length body mod 4 = 0" by simp
    with d r 1 show ?thesis by simp
  next
    case 2
    with len s have "Suc (length body) mod 4 = 0" by simp
    then have "length body mod 4 = 3" by presburger
    with d r 2 show ?thesis by simp
  next
    case 3
    with len s have "Suc (Suc (length body)) mod 4 = 0" by simp
    then have "length body mod 4 = 2" by presburger
    with d r 3 show ?thesis by simp
  qed
qed

subsection \<open>The guard on the imaging library\<close>

lemma find_image_on_screen_guard:
  "PILImage srv = None \<Longrightarrow> find_image_on_screen srv plat s confidence h = (Inl pillow_required, h)"
  by (simp add: find_image_on_screen_def)

lemma take_screenshot_guard:
  "PILImage srv = None \<Longrightarrow> take_screenshot srv plat h = (Inl pillow_required, h)"
  by (simp add: take_screenshot_def)

lemma returns_fst_Inl: "fst (returns f p) = Inl e \<longleftrightarrow> fst p = Inl e"
  by (cases "(f, p)" rule: returns.cases) auto

lemma returns_snd: "snd (returns f p) = snd p"
  by (cases "(f, p)" rule: returns.cases) auto

lemma move_to_not_pillow: "fst (move_to plat x y h) \<noteq> Inl pillow_required"
  by (simp add: move_to_def except_Exception_def pillow_required_def split: sum.splits)

lemma click_try_not_pillow: "fst (click_try plat x y b n h) \<noteq> Inl pillow_required"
  by (simp add: click_try_def except_Exception_def pillow_required_def split: sum.splits)

lemma Uncaught_not_pillow: "Uncaught e \<noteq> pillow_required"
  by (simp add: pillow_required_def)

lemma click_not_pillow: "fst (click plat x y b n h) \<noteq> Inl pillow_required"
  by (simp add: click_def click_try_not_pillow Uncaught_not_pillow
      split: sum.splits option.splits)

lemma type_text_not_pillow: "fst (type_text plat t i h) \<noteq> Inl pillow_required"
  by (simp add: type_text_def except_Exception_def pillow_required_def split: sum.splits)

lemma press_key_not_pillow: "fst (press_key plat k h) \<noteq> Inl pillow_required"
  by (simp add: press_key_def except_Exception_def pillow_required_def split: sum.splits)

lemma press_hotkey_not_pillow: "fst (press_hotkey plat ks h) \<noteq> Inl pillow_required"
  by (simp add: press_hotkey_def except_Exception_def pillow_required_def split: sum.splits)

lemma get_screen_size_not_pillow: "fst (get_screen_size plat h) \<noteq> Inl pillow_required"
  by (simp add: get_screen_size_def except_Exception_def pillow_required_def split: sum.splits)

lemma find_image_except_not_pillow: "find_image_except e \<noteq> pillow_required"
  by (simp add: find_image_except_def invalid_base64_def find_image_failed_def
      except_Exception_def pillow_required_def)

lemma find_image_not_pillow:
  "PILImage srv = Some pil \<Longrightarrow> fst (find_image_on_screen srv plat s c h) \<noteq> Inl pillow_required"
  by (simp add: find_image_on_screen_def Let_def find_image_except_not_pillow
      split: sum.splits option.splits)

lemma take_screenshot_not_pillow:
  "PILImage srv = Some pil \<Longrightarrow> fst (take_screenshot srv plat h) \<noteq> Inl pillow_required"
  by (simp add: take_screenshot_def Let_def screenshot_failed_def except_Exception_def
      pillow_required_def split: sum.splits option.splits)

lemma pillow_required_only_from_guard:
  assumes "fst (call_tool srv plat c h) = Inl pillow_required"
  shows "PILImage srv = None \<and>
         (c = Tool_take_screenshot \<or> (\<exists>s confidence. c = Tool_find_image_on_screen s confidence))"
proof (cases "violations c = []")
  case False
  with assms show ?thesis by (simp add: call_tool_def pillow_required_def)
next
  case True
  with assms have r: "fst (run_tool srv plat c h) = Inl pillow_required"
    by (simp add: call_tool_def)
  show ?thesis
  proof (cases c)
    case (Tool_find_image_on_screen s cf)
    with r find_image_not_pillow show ?thesis
      by (cases "PILImage srv") (auto simp: run_tool_def returns_fst_Inl)
  next
    case Tool_take_screenshot
    with r take_screenshot_not_pillow show ?thesis
      by (cases "PILImage srv") (auto simp: run_tool_def returns_fst_Inl)
  qed (use r in \<open>simp_all add: run_tool_def returns_fst_Inl move_to_not_pillow click_not_pillow
        type_text_not_pillow press_key_not_pillow press_hotkey_not_pillow
        get_screen_size_not_pillow\<close>)
qed

lemma serve_take_Suc:
  "i < length calls \<Longrightarrow>
   serve srv plat (take (Suc i) calls) h =
     (case serve srv plat (take i calls) h of
        (rs, h') \<Rightarrow> (case call_tool srv plat (calls ! i) h' of (r, h'') \<Rightarrow> (rs @ [r], h'')))"
proof (induction calls arbitrary: i h)
  case Nil
  then show ?case by simp
next
  case (Cons c cs)
  show ?case
  proof (cases i)
    case 0
    then show ?thesis by (simp add: split_beta)
  next
    case (Suc j)
    with Cons.prems have "j < length cs" by simp
    from Cons.IH [OF this, of "snd (call_tool srv plat c h)"] Suc show ?thesis
      by (simp add: split_beta)
  qed
qed

lemma serve_nth:
  "i < length calls \<Longrightarrow>
   fst (serve srv plat calls h) ! i =
     fst (call_tool srv plat (calls ! i) (snd (serve srv plat (take i calls) h)))"
proof (induction calls arbitrary: i h)
  case Nil
  then show ?case by simp
next
  case (Cons c cs)
  show ?case
  proof (cases i)
    case 0
    then show ?thesis by (simp add: split_beta)
  next
    case (Suc j)
    with Cons.prems have "j < length cs" by simp
    from Cons.IH [OF this, of "snd (call_tool srv plat c h)"] Suc show ?thesis
      by (simp add: split_beta)
  qed
qed

lemma call_tool_guard:
  assumes "PILImage srv = None" "violations c = []"
    "c = Tool_take_screenshot \<or> c = Tool_find_image_on_screen s confidence"
  shows "call_tool srv plat c h = (Inl pillow_required, h)"
  using assms
  by (auto simp: call_tool_def run_tool_def find_image_on_screen_guard take_screenshot_guard)

text \<open>
  Claim C3. When Pillow failed to import (\<^verbatim>\<open>PILImage is None\<close>), every invocation of
  \<^verbatim>\<open>find_image_on_screen\<close> and of \<^verbatim>\<open>take_screenshot\<close> among the calls a process
  serves (a call whose arguments pass validation, so that the body is invoked), whatever
  was served before it, ends with the dedicated error of the guard,
  \<^verbatim>\<open>RuntimeError("Pillow (PIL) library is required ...")\<close>, the code's form of
  DependencyUnavailable, and adds no library call to the history. That error is distinct
  from every other error of the server: a call ends with it only when Pillow is missing and
  the tool is one of these two.
\<close>

theorem pillow_missing_every_invocation:
  assumes "PILImage srv = None" and "i < length calls" and "violations (calls ! i) = []"
    and "calls ! i = Tool_take_screenshot \<or> calls ! i = Tool_find_image_on_screen s confidence"
  shows "fst (serve srv plat calls h) ! i = Inl pillow_required \<and>
         snd (serve srv plat (take (Suc i) calls) h) = snd (serve srv plat (take i calls) h) \<and>
         (\<forall>srv' plat' c' h'. fst (call_tool srv' plat' c' h') = Inl pillow_required \<longrightarrow>
            PILImage srv' = None \<and>
            (c' = Tool_take_screenshot \<or> (\<exists>s' cf'. c' = Tool_find_image_on_screen s' cf')))"
proof -
  let ?h = "snd (serve srv plat (take i calls) h)"
  have g: "call_tool srv plat (calls ! i) ?h = (Inl pillow_required, ?h)"
    using assms(1,3,4) by (rule call_tool_guard)
  have "fst (serve srv plat calls h) ! i = Inl pillow_required"
    using serve_nth [OF assms(2), of srv plat h] g by simp
  moreover have "snd (serve srv plat (take (Suc i) calls) h) = ?h"
    using serve_take_Suc [OF assms(2), of srv plat h] g by (simp add: split_beta)
  ultimately show ?thesis
    using pillow_required_only_from_guard by blast
qed

theorem pillow_missing_every_invocation_witness:
  "fst (serve without_pillow sample_platform
          [Tool_take_screenshot, Tool_move_to 3 4, Tool_find_image_on_screen ''AQEH'' None] [])
     ! 2 = Inl pillow_required"
  using pillow_missing_every_invocation [of without_pillow 2
      "[Tool_take_screenshot, Tool_move_to 3 4, Tool_find_image_on_screen ''AQEH'' None]"
      "''AQEH''" None sample_platform "[]"]
  by (simp add: without_pillow_def violations_def)

subsection \<open>The guard comes first\<close>

text \<open>
  With Pillow present, the first thing either tool does is its first library call; the
  history records it, so an unchanged history means that the tool did not get that far.
\<close>

lemma find_image_on_screen_decodes_first:
  "PILImage srv = Some pil \<Longrightarrow>
   \<exists>rest. snd (find_image_on_screen srv plat s confidence h) = h @ Call_b64decode s # rest"
  by (simp add: find_image_on_screen_def Let_def split: sum.splits option.splits)

lemma take_screenshot_captures_first:
  "PILImage srv = Some pil \<Longrightarrow>
   \<exists>rest. snd (take_screenshot srv plat h) = h @ Call_screenshot # rest"
  by (simp add: take_screenshot_def Let_def split: sum.splits option.splits)

text \<open>
  Claim C9. With Pillow missing, \<^verbatim>\<open>find_image_on_screen\<close> raises the error of the guard
  before it decodes its base64 argument and before any image is opened or searched for, and
  \<^verbatim>\<open>take_screenshot\<close> raises it before the capture primitive is called: the history
  of library calls is returned unchanged, and the outcome depends neither on the platform
  nor on the arguments.
\<close>

theorem pillow_guard_before_any_work:
  assumes "PILImage srv = None"
  shows "find_image_on_screen srv plat s confidence h = (Inl pillow_required, h) \<and>
         take_screenshot srv plat h = (Inl pillow_required, h)"
  using assms by (simp add: find_image_on_screen_guard take_screenshot_guard)

theorem pillow_guard_before_any_work_witness:
  "find_image_on_screen without_pillow sample_platform ''AQEH'' 0.9 [] = (Inl pillow_required, []) \<and>
   take_screenshot without_pillow sample_platform [] = (Inl pillow_required, [])"
  using pillow_guard_before_any_work [of without_pillow sample_platform "''AQEH''" "0.9" "[]"]
  by (simp add: without_pillow_def)

subsection \<open>The tools that do not use the imaging library\<close>

text \<open>
  Claim C10. \<^verbatim>\<open>move_to\<close>, \<^verbatim>\<open>click\<close>, \<^verbatim>\<open>type_text\<close>, \<^verbatim>\<open>press_key\<close>,
  \<^verbatim>\<open>press_hotkey\<close> and \<^verbatim>\<open>get_screen_size\<close> do not depend on whether Pillow was
  imported: for all arguments, on the same platform and after the same history, a call
  gives the same result and makes the same library calls under any two bindings of
  \<^verbatim>\<open>PILImage\<close>.
\<close>

theorem input_tools_ignore_pillow:
  "call_tool srv plat (Tool_move_to x y) h = call_tool srv' plat (Tool_move_to x y) h \<and>
   call_tool srv plat (Tool_click x y button clicks) h =
     call_tool srv' plat (Tool_click x y button clicks) h \<and>
   call_tool srv plat (Tool_type_text text interval) h =
     call_tool srv' plat (Tool_type_text text interval) h \<and>
   call_tool srv plat (Tool_press_key key) h = call_tool srv' plat (Tool_press_key key) h \<and>
   call_tool srv plat (Tool_press_hotkey keys) h =
     call_tool srv' plat (Tool_press_hotkey keys) h \<and>
   call_tool srv plat Tool_get_screen_size h = call_tool srv' plat Tool_get_screen_size h"
  by (simp add: call_tool_def run_tool_def)

subsection \<open>Image search\<close>






text \<open>
  Claim C6. \<^verbatim>\<open>find_image_on_screen\<close> returns a dictionary exactly when the search
  primitive returned a point, and the dictionary then holds that point's coordinates under
  \<^verbatim>\<open>x\<close> and \<^verbatim>\<open>y\<close>, unchanged.
\<close>

theorem find_image_on_screen_center:
  "fst (find_image_on_screen srv plat s confidence h) = Inr (Some d) \<longleftrightarrow>
   (\<exists>pil bs img x y.
      PILImage srv = Some pil \<and> base64_b64decode plat s = Inr bs \<and>
      PILImage_open pil bs = Inr img \<and>
      pyautogui_locateCenterOnScreen plat (h @ [Call_b64decode s, Call_PILImage_open bs])
        img confidence = Inr (Some (x, y)) \<and>
      d = [(''x'', x), (''y'', y)])"
proof (cases "PILImage srv")
  case None
  then show ?thesis by (simp add: find_image_on_screen_def)
next
  case pil: (Some pil)
  show ?thesis
  proof (cases "base64_b64decode plat s")
    case (Inl e)
    with pil show ?thesis by (simp add: find_image_on_screen_def)
  next
    case bs: (Inr bs)
    show ?thesis
    proof (cases "PILImage_open pil bs")
      case (Inl e)
      with pil bs show ?thesis by (simp add: find_image_on_screen_def)
    next
      case img: (Inr img)
      let ?location = "pyautogui_locateCenterOnScreen plat
        (h @ [Call_b64decode s, Call_PILImage_open bs]) img confidence"
      have "fst (find_image_on_screen srv plat s confidence h) =
        (case ?location of
           Inl e \<Rightarrow> Inl (find_image_except e)
         | Inr None \<Rightarrow> Inr None
         | Inr (Some location) \<Rightarrow> Inr (Some [(''x'', fst location), (''y'', snd location)]))"
        using pil bs img
        by (simp add: find_image_on_screen_def split: sum.splits option.splits)
      with pil bs img show ?thesis
        by (auto split: sum.splits option.splits)
    qed
  qed
qed

theorem find_image_on_screen_center_witness:
  "fst (find_image_on_screen with_pillow sample_platform ''AQEH'' 0.9 []) =
     Inr (Some [(''x'', 1), (''y'', 0)])"
proof -
  have d: "b64decode ''AQEH'' = Inr [1, 1, 7]"
    by (simp add: b64decode_def table_a2b_base64_def)
  have o: "sample_open [1, 1, 7] = Inr (Raster 1 1 [7])"
    by (simp add: sample_open_def)
  have "\<exists>pil bs img x y.
      PILImage with_pillow = Some pil \<and> base64_b64decode sample_platform ''AQEH'' = Inr bs \<and>
      PILImage_open pil bs = Inr img \<and>
      pyautogui_locateCenterOnScreen sample_platform
        ([] @ [Call_b64decode ''AQEH'', Call_PILImage_open bs]) img 0.9 = Inr (Some (x, y)) \<and>
      [(''x'', 1), (''y'', 0)] = [(''x'', x), (''y'', y)]"
    by (simp add: with_pillow_def sample_platform_def d o)
  then show ?thesis
    by (rule find_image_on_screen_center [THEN iffD2])
qed

subsection \<open>Screen capture\<close>

text \<open>
  Claim C7. \<^verbatim>\<open>take_screenshot\<close> returns a value exactly when Pillow is present, the
  capture primitive (called for the whole screen, with no region) returned an image and
  saving that image in format \<^verbatim>\<open>"PNG"\<close> gave bytes; the value is
  \<^verbatim>\<open>Image(data=\<close>those bytes\<^verbatim>\<open>, format="png")\<close>. When the capture primitive raises an
  \<^verbatim>\<open>Exception\<close>, the tool ends with \<^verbatim>\<open>RuntimeError("Failed to take screenshot:
  ...")\<close>, the code's form of CaptureFailed.
\<close>

theorem take_screenshot_png:
  "(take_screenshot srv plat h = (Inr r, h') \<longleftrightarrow>
      (\<exists>pil img. PILImage srv = Some pil \<and> pyautogui_screenshot plat h = Inr img \<and>
         image_save plat img ''PNG'' = Inr (data r) \<and> format r = ''png'' \<and>
         h' = h @ [Call_screenshot, Call_save img ''PNG''])) \<and>
   (PILImage srv = Some pil \<and> pyautogui_screenshot plat h = Inl e \<and>
    class_of e \<noteq> BaseException \<longrightarrow>
      take_screenshot srv plat h = (Inl (screenshot_failed e), h @ [Call_screenshot]))"
  by (cases r) (auto simp: take_screenshot_def Let_def except_Exception_def
      split: sum.splits option.splits)

theorem take_screenshot_png_witness:
  "take_screenshot with_pillow sample_platform [] =
     (Inr \<lparr>data = [0x89, 0x50, 0x4E, 0x47, 2, 1, 0, 7], format = ''png''\<rparr>,
      [Call_screenshot, Call_save (Raster 2 1 [0, 7]) ''PNG'']) \<and>
   take_screenshot with_pillow no_display [] =
     (Inl (screenshot_failed (Raised Exception ''screen grab failed'')), [Call_screenshot])"
proof -
  have a: "take_screenshot with_pillow sample_platform [] =
     (Inr \<lparr>data = [0x89, 0x50, 0x4E, 0x47, 2, 1, 0, 7], format = ''png''\<rparr>,
      [Call_screenshot, Call_save (Raster 2 1 [0, 7]) ''PNG''])"
    using take_screenshot_png [of with_pillow sample_platform "[]"
        "\<lparr>data = [0x89, 0x50, 0x4E, 0x47, 2, 1, 0, 7], format = ''png''\<rparr>"
        "[Call_screenshot, Call_save (Raster 2 1 [0, 7]) ''PNG'']"]
    by (simp add: with_pillow_def sample_platform_def sample_screen_def)
  have b: "take_screenshot with_pillow no_display [] =
     (Inl (screenshot_failed (Raised Exception ''screen grab failed'')), [Call_screenshot])"
    using take_screenshot_png [of with_pillow no_display "[]" _ _
        "\<lparr>PILImage_open = sample_open\<rparr>" "Raised Exception ''screen grab failed''"]
    by (simp add: with_pillow_def no_display_def sample_platform_def)
  from a b show ?thesis by simp
qed

subsection \<open>Declared constraints\<close>

text \<open>
  Claim C4. A \<^verbatim>\<open>click\<close> call with \<^verbatim>\<open>clicks = n\<close> and \<^verbatim>\<open>n \<le> 0\<close> is refused by
  validation, with an error that names \<^verbatim>\<open>clicks\<close> and the constraint \<^verbatim>\<open>ge=1\<close>,
  and no library call is made; for \<^verbatim>\<open>n \<ge> 1\<close> no constraint on \<^verbatim>\<open>clicks\<close> is
  violated, and with a valid button the body runs with that count.
\<close>

theorem click_clicks_validation:
  "(n \<le> 0 \<longrightarrow>
      (\<exists>vs. call_tool srv plat (Tool_click x y button (Some n)) h =
              (Inl (ValidationError vs), h) \<and> (''clicks'', ''ge=1'') \<in> set vs)) \<and>
   (1 \<le> n \<longrightarrow>
      (\<forall>v. (''clicks'', v) \<notin> set (violations (Tool_click x y button (Some n)))) \<and>
      (arg_default ''left'' button \<in> set [''left'', ''right'', ''middle''] \<longrightarrow>
         call_tool srv plat (Tool_click x y button (Some n)) h =
           returns (\<lambda>u. Returned_None) (click plat x y (arg_default ''left'' button) n h)))"
proof (intro conjI impI allI)
  let ?c = "Tool_click x y button (Some n)"
  assume "n \<le> 0"
  then have v: "(''clicks'', ''ge=1'') \<in> set (violations ?c)"
    by (simp add: violations_def)
  then have "violations ?c \<noteq> []" by auto
  then have "call_tool srv plat ?c h = (Inl (ValidationError (violations ?c)), h)"
    by (simp add: call_tool_def)
  with v show "\<exists>vs. call_tool srv plat ?c h = (Inl (ValidationError vs), h) \<and>
      (''clicks'', ''ge=1'') \<in> set vs"
    by blast
next
  fix v
  assume "1 \<le> n"
  then show "(''clicks'', v) \<notin> set (violations (Tool_click x y button (Some n)))"
    by (simp add: violations_def)
next
  let ?c = "Tool_click x y button (Some n)"
  assume "1 \<le> n" and "arg_default ''left'' button \<in> set [''left'', ''right'', ''middle'']"
  then have "violations ?c = []"
    by (simp add: violations_def)
  then show "call_tool srv plat ?c h =
      returns (\<lambda>u. Returned_None) (click plat x y (arg_default ''left'' button) n h)"
    by (simp add: call_tool_def run_tool_def)
qed

theorem click_clicks_validation_witness:
  "call_tool with_pillow sample_platform (Tool_click 5 6 None (Some 0)) [] =
     (Inl (ValidationError [(''clicks'', ''ge=1'')]), []) \<and>
   call_tool with_pillow sample_platform (Tool_click 5 6 None (Some 2)) [] =
     (Inr Returned_None, [Call_click 5 6 ''left'' 2])"
proof -
  have a: "call_tool with_pillow sample_platform (Tool_click 5 6 None (Some 0)) [] =
     (Inl (ValidationError [(''clicks'', ''ge=1'')]), [])"
    by (simp add: call_tool_def violations_def)
  have c: "click sample_platform 5 6 ''left'' 2 [] = (Inr (), [Call_click 5 6 ''left'' 2])"
    by (simp add: click_def click_try_def sample_platform_def)
  have b: "call_tool with_pillow sample_platform (Tool_click 5 6 None (Some 2)) [] =
     (Inr Returned_None, [Call_click 5 6 ''left'' 2])"
    using click_clicks_validation [of 2 with_pillow sample_platform 5 6 None "[]"] c
    by simp
  from a b show ?thesis by simp
qed

subsection \<open>Key names\<close>

text \<open>
  Claim C5, as stated, does not hold. On the sample platform, whose key press ignores a
  name it does not know, \<^verbatim>\<open>press_key("notakey")\<close> and
  \<^verbatim>\<open>press_hotkey(["ctrl", "notakey"])\<close> are not refused: the library is called with
  the names as given and the tools return \<^verbatim>\<open>None\<close>.
\<close>

theorem press_key_unrecognized_counterexample:
  "''notakey'' \<notin> set (pyautogui_KEYBOARD_KEYS sample_platform) \<and>
   call_tool with_pillow sample_platform (Tool_press_key ''notakey'') [] =
     (Inr Returned_None, [Call_press ''notakey'']) \<and>
   call_tool with_pillow sample_platform (Tool_press_hotkey [''ctrl'', ''notakey'']) [] =
     (Inr Returned_None, [Call_hotkey [''ctrl'', ''notakey'']])"
  by (simp add: call_tool_def violations_def run_tool_def press_key_def press_hotkey_def
      sample_platform_def)

text \<open>
  Claim C5, amended. \<^verbatim>\<open>press_key\<close> and \<^verbatim>\<open>press_hotkey\<close> declare no constraint on
  key names and check none: every call passes the names as given to
  \<^verbatim>\<open>pyautogui.press\<close> or \<^verbatim>\<open>pyautogui.hotkey\<close>. The tool returns \<^verbatim>\<open>None\<close>
  exactly when that call returns; when it raises an \<^verbatim>\<open>Exception\<close>, the tool ends with
  a \<^verbatim>\<open>ValueError\<close>.
\<close>

theorem press_key_names_unchecked:
  "call_tool srv plat (Tool_press_key key) h =
     returns (\<lambda>u. Returned_None) (press_key plat key h) \<and>
   call_tool srv plat (Tool_press_hotkey keys) h =
     returns (\<lambda>u. Returned_None) (press_hotkey plat keys h) \<and>
   snd (press_key plat key h) = h @ [Call_press key] \<and>
   snd (press_hotkey plat keys h) = h @ [Call_hotkey keys] \<and>
   (fst (press_key plat key h) = Inr () \<longleftrightarrow> pyautogui_press plat h key = Inr ()) \<and>
   (fst (press_hotkey plat keys h) = Inr () \<longleftrightarrow> pyautogui_hotkey plat h keys = Inr ()) \<and>
   (\<forall>e. pyautogui_press plat h key = Inl e \<and> class_of e \<noteq> BaseException \<longrightarrow>
      (\<exists>m. fst (press_key plat key h) = Inl (ValueError m))) \<and>
   (\<forall>e. pyautogui_hotkey plat h keys = Inl e \<and> class_of e \<noteq> BaseException \<longrightarrow>
      (\<exists>m. fst (press_hotkey plat keys h) = Inl (ValueError m)))"
  by (auto simp: call_tool_def violations_def run_tool_def press_key_def press_hotkey_def
      except_Exception_def split: sum.splits)

theorem press_key_names_unchecked_witness:
  "snd (press_key strict_keys ''notakey'' []) = [Call_press ''notakey''] \<and>
   (\<exists>m. fst (press_key strict_keys ''notakey'' []) = Inl (ValueError m))"
proof -
  have p: "pyautogui_press strict_keys [] ''notakey'' = Inl (Raised Exception ''unknown key'')"
    by (simp add: strict_keys_def sample_platform_def)
  have "class_of (Raised Exception ''unknown key'') \<noteq> BaseException" by simp
  with p press_key_names_unchecked [of with_pillow strict_keys "''notakey''" "[]" "[]"]
  show ?thesis by auto
qed

text \<open>
  Claim C8. \<^verbatim>\<open>press_hotkey\<close> with an empty list is not refused by validation; its one
  library call is \<^verbatim>\<open>pyautogui.hotkey()\<close> with no key name, and when that call returns,
  the tool returns \<^verbatim>\<open>None\<close> with no error.
\<close>

theorem press_hotkey_empty:
  "violations (Tool_press_hotkey []) = [] \<and>
   snd (call_tool srv plat (Tool_press_hotkey []) h) = h @ [Call_hotkey []] \<and>
   (pyautogui_hotkey plat h [] = Inr () \<longrightarrow>
      call_tool srv plat (Tool_press_hotkey []) h = (Inr Returned_None, h @ [Call_hotkey []]))"
  by (auto simp: call_tool_def violations_def run_tool_def press_hotkey_def
      split: sum.splits)

theorem press_hotkey_empty_witness:
  "call_tool with_pillow sample_platform (Tool_press_hotkey []) [] =
     (Inr Returned_None, [Call_hotkey []])"
  using press_hotkey_empty [of with_pillow sample_platform "[]"]
  by (simp add: sample_platform_def)

end
